theory Spec2Isabelle
  imports Main
begin

section \<open>JavaScript values, errors and observable effects\<close>

text \<open>
  The library \<^verbatim>\<open>lib/ldapauth.js\<close> is callback driven. Each handler of the source becomes
  a function from the state it reads to the state it leaves and the list of things it does,
  in program order. The configuration object is untyped in the source, so its required
  fields are JavaScript values; numbers are integers here (no \<^verbatim>\<open>NaN\<close>), a String object
  (\<^verbatim>\<open>new String(s)\<close>) is \<open>JStringObject\<close>, and every other object is the one value
  \<open>JObject\<close>. Logging (\<^verbatim>\<open>log && log.trace(...)\<close>) is left out.
\<close>

datatype js_value =
    JUndefined
  | JNull
  | JBool bool
  | JNum int
  | JString string
  | JStringObject string
  | JObject

text \<open>JavaScript's \<^verbatim>\<open>ToBoolean\<close>, as \<^verbatim>\<open>assert.ok(v)\<close>, \<^verbatim>\<open>!v\<close> and \<^verbatim>\<open>a || b\<close> use it.\<close>

fun truthy :: "js_value \<Rightarrow> bool" where
  "truthy JUndefined = False"
| "truthy JNull = False"
| "truthy (JBool b) = b"
| "truthy (JNum n) = (n \<noteq> 0)"
| "truthy (JString s) = (s \<noteq> [])"
| "truthy (JStringObject s) = True"
| "truthy JObject = True"

text \<open>\<^verbatim>\<open>typeof v === 'string'\<close>, the test of \<^verbatim>\<open>assert.string\<close>.\<close>

fun is_string :: "js_value \<Rightarrow> bool" where
  "is_string (JString s) = True"
| "is_string v = False"

text \<open>
  The text of a value that has the method \<^verbatim>\<open>replace\<close> of strings: a string or a String
  object. On any other value of the model \<^verbatim>\<open>v.replace(...)\<close> is a \<^verbatim>\<open>TypeError\<close>.
\<close>

fun string_text :: "js_value \<Rightarrow> string option" where
  "string_text (JString s) = Some s"
| "string_text (JStringObject s) = Some s"
| "string_text v = None"

text \<open>A required option that is missing (\<^verbatim>\<open>undefined\<close>, \<^verbatim>\<open>null\<close>) or the empty string.\<close>

fun missing_or_empty :: "js_value \<Rightarrow> bool" where
  "missing_or_empty JUndefined = True"
| "missing_or_empty JNull = True"
| "missing_or_empty (JString s) = (s = [])"
| "missing_or_empty v = False"

text \<open>
  Everything the source passes as an error: objects made by \<^verbatim>\<open>new Error(msg)\<close>, the
  assertion failures of assert-plus, the errors ldapjs reports (they carry a \<^verbatim>\<open>name\<close>), a
  \<^verbatim>\<open>TypeError\<close> of the runtime, and the three plain strings the source builds:
  \<^verbatim>\<open>'non-zero status from LDAP search: ' + status\<close>,
  \<^verbatim>\<open>format('unexpected number of matches (%s) for "%s" username', n, username)\<close> and
  \<^verbatim>\<open>format('no such user: "%s"', username)\<close>, kept with their arguments unformatted.
\<close>

datatype failure =
    JsError string
  | AssertionError string
  | LdapError string string
  | TypeError string
  | NonZeroStatus int
  | UnexpectedMatches nat string
  | NoSuchUser string

text \<open>\<^verbatim>\<open>err.name\<close>; a plain string has no such property.\<close>

fun err_name :: "failure \<Rightarrow> string option" where
  "err_name (JsError m) = Some ''Error''"
| "err_name (AssertionError m) = Some ''AssertionError''"
| "err_name (LdapError n m) = Some n"
| "err_name (TypeError m) = Some ''TypeError''"
| "err_name (NonZeroStatus st) = None"
| "err_name (UnexpectedMatches n u) = None"
| "err_name (NoSuchUser u) = None"

text \<open>A directory entry (\<^verbatim>\<open>entry.object\<close>): its DN and its attributes.\<close>

record user =
  dn :: string
  attrs :: "(string \<times> string) list"

text \<open>What the cache stores per username: \<^verbatim>\<open>{password: <hashed-password>, user: <user>}\<close>.\<close>

record cache_entry =
  ce_password :: string
  ce_user :: user

text \<open>
  The observable actions of the library: calls into ldapjs, into bcrypt and into the cache,
  events emitted to listeners, and the invocations of the callbacks given by the caller.
\<close>

datatype effect =
    CreateClient
  | Bind js_value js_value
  | SocketEnd
  | SetKeepAlive
  | Unbind
  | Search js_value string
  | ListenToClient
  | RemoveProxyListeners
  | RetryAbort
  | BackoffScheduled nat
  | Emit string "failure option"
  | HashPassword string
  | CacheSet string cache_entry
  | CloseCallback "failure option"
  | AuthCallback "failure + user"
  | Thrown failure

section \<open>Configuration\<close>

text \<open>
  The options the model reads. \<open>retry\<close> is \<^verbatim>\<open>opts.retry\<close> (absent, or an object whose
  \<^verbatim>\<open>retries\<close> is absent or a number); the delays of the backoff strategy are not modelled.
\<close>

record retry_opts =
  retries :: "nat option"

record config =
  url :: js_value
  adminDn :: js_value
  adminPassword :: js_value
  searchBase :: js_value
  searchFilter :: js_value
  cache :: bool
  retry :: "retry_opts option"

section \<open>String.prototype.replace with a string pattern\<close>

text \<open>
  \<^verbatim>\<open>str.replace(searchValue, replaceValue)\<close> with two strings: the first occurrence of
  the pattern is found, and the replacement text is expanded (ECMAScript's GetSubstitution)
  before it is put in: \<^verbatim>\<open>$$\<close> is a dollar sign, \<^verbatim>\<open>$&\<close> the matched text,
  \<^verbatim>\<open>$`\<close> the text before the match and \<^verbatim>\<open>$'\<close> the text after it. A string
  pattern has no capture groups, so \<^verbatim>\<open>$1\<close> and every other use of the dollar sign
  stay as they are.
\<close>

fun is_prefix :: "string \<Rightarrow> string \<Rightarrow> bool" where
  "is_prefix [] s = True"
| "is_prefix (p # ps) [] = False"
| "is_prefix (p # ps) (c # cs) = (p = c \<and> is_prefix ps cs)"

fun indexOf :: "string \<Rightarrow> string \<Rightarrow> nat option" where
  "indexOf [] pat = (if pat = [] then Some 0 else None)"
| "indexOf (c # cs) pat =
     (if is_prefix pat (c # cs) then Some 0
      else (case indexOf cs pat of None \<Rightarrow> None | Some i \<Rightarrow> Some (Suc i)))"

fun getSubstitution :: "string \<Rightarrow> string \<Rightarrow> string \<Rightarrow> string \<Rightarrow> string" where
  "getSubstitution matched preceding following [] = []"
| "getSubstitution matched preceding following [c] = [c]"
| "getSubstitution matched preceding following (c # d # r) =
     (if c = CHR ''$'' \<and> d = CHR ''$'' then CHR ''$'' # getSubstitution matched preceding following r
      else if c = CHR ''$'' \<and> d = CHR ''&'' then matched @ getSubstitution matched preceding following r
      else if c = CHR ''$'' \<and> d = CHR 0x60 then preceding @ getSubstitution matched preceding following r
      else if c = CHR ''$'' \<and> d = CHR 0x27 then following @ getSubstitution matched preceding following r
      else c # getSubstitution matched preceding following (d # r))"

definition js_replace :: "string \<Rightarrow> string \<Rightarrow> string \<Rightarrow> string" where
  "js_replace str pat repl =
     (case indexOf str pat of
        None \<Rightarrow> str
      | Some i \<Rightarrow>
          (let preceding = take i str; following = drop (i + length pat) str
           in preceding @ getSubstitution pat preceding following repl @ following))"

section \<open>The retrying connector: \<^verbatim>\<open>_createClient\<close>\<close>

text \<open>
  \<^verbatim>\<open>_createClient\<close> wraps \<^verbatim>\<open>_createClientAttempt\<close> in a call object of the backoff
  library (\<^verbatim>\<open>backoff.call\<close>), which runs one attempt at a time. The library is not part
  of this repository; the three places where the model follows it (the report of an
  attempt, the end of a delay, \<^verbatim>\<open>abort\<close>) say so. The state of the call: running,
  completed by an attempt that reported no error, or aborted.
\<close>

datatype call_state = Running | Completed | Aborted

text \<open>
  What the current attempt waits for: the transport (\<open>Connecting\<close>: one of the client's
  \<^verbatim>\<open>connect\<close>, \<^verbatim>\<open>error\<close>, \<^verbatim>\<open>connectTimeout\<close>), the answer to its bind (\<open>Binding\<close>),
  the delay before the next attempt (\<open>Sleeping\<close>), or nothing (\<open>Settled\<close>).
\<close>

datatype phase = Connecting | Binding | Sleeping | Settled

record connector =
  cred_dn :: js_value
  cred_passwd :: js_value
  call_state :: call_state
  phase :: phase
  backoffNumber :: nat
  maxRetries :: "nat option"
  cb_called :: bool

text \<open>The arguments the connector's callback \<^verbatim>\<open>cb(err, client)\<close> is invoked with.\<close>

datatype cb_args = CbErr failure | CbClient | CbNothing

text \<open>A connector's handler does things and may invoke the callback, in this order.\<close>

datatype conn_out = Do effect | Call cb_args

datatype conn_event =
    OnConnect
  | OnError failure
  | OnConnectTimeout
  | BindResult "failure option"
  | TimerFired

text \<open>
  \<^verbatim>\<open>cb = once(cb)\<close>: only the first invocation reaches the caller's function. That
  function may throw; \<open>throws\<close> says for which arguments it does, and the third component
  of the result says whether this invocation threw, so that the handler which made it can
  skip what it would have done next.
\<close>

definition once_cb ::
  "(cb_args \<Rightarrow> bool) \<Rightarrow> connector \<Rightarrow> cb_args \<Rightarrow> connector \<times> conn_out list \<times> bool" where
  "once_cb throws c args =
     (if cb_called c then (c, [], False)
      else (c\<lparr>cb_called := True\<rparr>, [Call args], throws args))"

text \<open>
  \<^verbatim>\<open>retryOpts.retries = retryOpts.retries || Infinity\<close> over \<^verbatim>\<open>opts.retry || {}\<close>:
  an absent limit and the limit 0 both mean no limit (\<open>None\<close>).
\<close>

definition retry_limit :: "retry_opts option \<Rightarrow> nat option" where
  "retry_limit r =
     (case r of
        None \<Rightarrow> None
      | Some ro \<Rightarrow> (case retries ro of None \<Rightarrow> None | Some n \<Rightarrow> if n = 0 then None else Some n))"

text \<open>
  \<^verbatim>\<open>_createClient(opts, cb)\<close> up to \<^verbatim>\<open>retry.start()\<close>, which makes the first attempt at
  once: \<^verbatim>\<open>ldap.createClient(opts)\<close>.
\<close>

definition createClient :: "js_value \<Rightarrow> js_value \<Rightarrow> retry_opts option \<Rightarrow> connector \<times> effect list" where
  "createClient d p r =
     (\<lparr>cred_dn = d, cred_passwd = p, call_state = Running, phase = Connecting,
       backoffNumber = 0, maxRetries = retry_limit r, cb_called = False\<rparr>,
      [CreateClient])"

text \<open>
  Modelled from the spec: the function \<^verbatim>\<open>_cb\<close> that the backoff library hands to
  \<^verbatim>\<open>_createClientAttempt\<close> (the library is not among the sources). What an attempt
  reports to an aborted call is dropped. A reported error is followed by another attempt
  after a delay, unless the number of retries made equals the limit given to
  \<^verbatim>\<open>failAfter\<close>: then the error is given to the callback. A report without an error
  completes the call, and its arguments are given to the callback.
\<close>

definition attempt_report ::
  "(cb_args \<Rightarrow> bool) \<Rightarrow> connector \<Rightarrow> cb_args \<Rightarrow> connector \<times> conn_out list" where
  "attempt_report throws c args =
     (if call_state c = Aborted then (c\<lparr>phase := Settled\<rparr>, [])
      else (case args of
              CbErr e \<Rightarrow>
                (if maxRetries c = Some (backoffNumber c)
                 then (let (c1, out, thrown) =
                             once_cb throws (c\<lparr>phase := Settled, backoffNumber := 0\<rparr>) (CbErr e)
                       in (c1, out))
                 else (c\<lparr>phase := Sleeping\<rparr>, [Do (BackoffScheduled (backoffNumber c))]))
            | CbClient \<Rightarrow>
                (let (c1, out, thrown) =
                       once_cb throws (c\<lparr>phase := Settled, call_state := Completed\<rparr>) CbClient
                 in (c1, out))
            | CbNothing \<Rightarrow>
                (let (c1, out, thrown) =
                       once_cb throws (c\<lparr>phase := Settled, call_state := Completed\<rparr>) CbNothing
                 in (c1, out))))"

text \<open>
  Modelled from the spec: \<^verbatim>\<open>retry.abort()\<close> of the backoff library. It cancels the
  pending delay and stops the call without invoking the callback; a completed call is left
  as it is.
\<close>

definition abort :: "connector \<Rightarrow> connector" where
  "abort c =
     (if call_state c = Completed then c
      else c\<lparr>call_state := Aborted, backoffNumber := 0,
             phase := (if phase c = Sleeping then Settled else phase c)\<rparr>)"

text \<open>
  The callback of \<^verbatim>\<open>client.bind\<close>. \<open>is_closed\<close> is \<^verbatim>\<open>self.closed\<close> when the answer
  arrives. With invalid credentials the caller is called back first; when its function
  throws, \<^verbatim>\<open>client.socket.end()\<close> and \<^verbatim>\<open>retry.abort()\<close> are not reached.
\<close>

definition on_bind ::
  "(cb_args \<Rightarrow> bool) \<Rightarrow> bool \<Rightarrow> connector \<Rightarrow> failure option \<Rightarrow> connector \<times> conn_out list" where
  "on_bind throws is_closed c r =
     (if is_closed then
        (let (c1, out) = attempt_report throws c CbNothing in (c1, Do SocketEnd # out))
      else (case r of
              Some err \<Rightarrow>
                (if err_name err = Some ''InvalidCredentialsError'' then
                   (let (c1, out, thrown) = once_cb throws c (CbErr err)
                    in if thrown then (c1\<lparr>phase := Settled\<rparr>, out)
                       else (abort (c1\<lparr>phase := Settled\<rparr>),
                             out @ [Do SocketEnd, Do RetryAbort]))
                 else attempt_report throws c (CbErr err))
            | None \<Rightarrow>
                (let (c1, out) = attempt_report throws c CbClient
                 in (c1, Do SetKeepAlive # out))))"

text \<open>
  The events of one attempt: \<^verbatim>\<open>onConnect\<close>, \<^verbatim>\<open>onError\<close>, the listener for
  \<^verbatim>\<open>connectTimeout\<close>, the answer to the bind, and the end of a delay (modelled from the
  spec, as above: the backoff library makes the next attempt). The client is taken to
  emit one of \<^verbatim>\<open>connect\<close>, \<^verbatim>\<open>error\<close> and \<^verbatim>\<open>connectTimeout\<close> for a connection attempt and
  to answer a bind once: an event the attempt does not wait for changes nothing. (The
  source leaves the listener for \<^verbatim>\<open>connectTimeout\<close> registered after \<^verbatim>\<open>connect\<close>, and the
  one for \<^verbatim>\<open>error\<close> after \<^verbatim>\<open>connectTimeout\<close>; a client that emitted such a second event
  would have it reported to the backoff once more. The statements about a single handler
  below are made for every state of the connector, not only for those this protocol
  reaches.)
\<close>

fun conn_step ::
  "(cb_args \<Rightarrow> bool) \<Rightarrow> bool \<Rightarrow> connector \<Rightarrow> conn_event \<Rightarrow> connector \<times> conn_out list" where
  "conn_step throws is_closed c OnConnect =
     (if phase c \<noteq> Connecting then (c, [])
      else if is_closed then
        (let (c1, out) = attempt_report throws c CbNothing in (c1, Do SocketEnd # out))
      else (c\<lparr>phase := Binding\<rparr>, [Do (Bind (cred_dn c) (cred_passwd c))]))"
| "conn_step throws is_closed c (OnError err) =
     (if phase c \<noteq> Connecting then (c, []) else attempt_report throws c (CbErr err))"
| "conn_step throws is_closed c OnConnectTimeout =
     (if phase c \<noteq> Connecting then (c, [])
      else attempt_report throws c (CbErr (JsError ''connect timeout'')))"
| "conn_step throws is_closed c (BindResult r) =
     (if phase c \<noteq> Binding then (c, []) else on_bind throws is_closed c r)"
| "conn_step throws is_closed c TimerFired =
     (if phase c \<noteq> Sleeping then (c, [])
      else (c\<lparr>phase := Connecting, backoffNumber := Suc (backoffNumber c)\<rparr>, [Do CreateClient]))"

section \<open>The service and its administrative session\<close>

text \<open>
  The fields of an \<^verbatim>\<open>LdapAuth\<close> object. \<open>adminClient\<close> says whether \<^verbatim>\<open>_adminClient\<close>
  holds a client, \<open>adminConnecting\<close> whether \<^verbatim>\<open>_adminConnecting\<close> holds a retry object
  (it is \<^verbatim>\<open>false\<close> otherwise), and \<open>admin_retry\<close> is the connector made by the latest
  \<^verbatim>\<open>adminConnect()\<close>. \<open>pending_unbinds\<close> counts the calls of \<^verbatim>\<open>close\<close> whose unbind has
  not answered yet. The service is an event emitter: \<open>error_listener\<close> says whether the
  application has registered a listener for its \<^verbatim>\<open>error\<close> event.

  Modelled from the spec: the credential cache (\<^verbatim>\<open>lib/cache.js\<close> is not among the
  sources) is a store with \<^verbatim>\<open>get(key)\<close> giving an entry or nothing and
  \<^verbatim>\<open>set(key, entry)\<close>; its capacity and its time-to-live are not modelled.
\<close>

record ldapauth =
  opts :: config
  closed :: bool
  adminClient :: bool
  adminConnecting :: bool
  admin_retry :: "connector option"
  pending_unbinds :: nat
  userCache :: "string \<rightharpoonup> cache_entry"
  error_listener :: bool

text \<open>
  The callback the constructor gives to \<^verbatim>\<open>_createClient\<close>. \<^verbatim>\<open>self.emit('error', err)\<close>
  throws the error when no listener for \<^verbatim>\<open>error\<close> is registered. With neither an error
  nor a client, \<^verbatim>\<open>client.once\<close> is read from \<^verbatim>\<open>undefined\<close>. \<open>admin_throws\<close> says when this
  callback throws.
\<close>

definition admin_throws :: "ldapauth \<Rightarrow> cb_args \<Rightarrow> bool" where
  "admin_throws s args =
     (case args of
        CbErr e \<Rightarrow> \<not> error_listener s
      | CbClient \<Rightarrow> False
      | CbNothing \<Rightarrow> True)"

definition admin_cb :: "ldapauth \<Rightarrow> cb_args \<Rightarrow> ldapauth \<times> effect list" where
  "admin_cb s args =
     (let s1 = s\<lparr>adminConnecting := False\<rparr>
      in (case args of
            CbErr e \<Rightarrow>
              (if error_listener s1 then (s1, [Emit ''error'' (Some e)]) else (s1, [Thrown e]))
          | CbClient \<Rightarrow>
              (if closed s1 then (s1, [Unbind])
               else (s1\<lparr>adminClient := True\<rparr>, [ListenToClient, Emit ''connect'' None]))
          | CbNothing \<Rightarrow> (s1, [Thrown (TypeError ''client is undefined'')])))"

fun admin_outs :: "ldapauth \<Rightarrow> conn_out list \<Rightarrow> ldapauth \<times> effect list" where
  "admin_outs s [] = (s, [])"
| "admin_outs s (Do e # out) = (let (s1, es) = admin_outs s out in (s1, e # es))"
| "admin_outs s (Call args # out) =
     (let (s1, es1) = admin_cb s args; (s2, es2) = admin_outs s1 out in (s2, es1 @ es2))"

definition adminConnect :: "ldapauth \<Rightarrow> ldapauth \<times> effect list" where
  "adminConnect s =
     (let (c, es) = createClient (adminDn (opts s)) (adminPassword (opts s)) (retry (opts s))
      in (s\<lparr>adminConnecting := True, admin_retry := Some c\<rparr>, es))"

text \<open>
  Modelled from the spec: the check that \<^verbatim>\<open>ldap.createClient(opts)\<close> makes of its options
  before it creates a client (ldapjs is not among the sources). It throws a
  \<^verbatim>\<open>TypeError\<close> for a URL that is missing or empty, as the invariant of the configuration
  says; which non-empty strings it takes for a URL is left open (\<open>url_ok\<close>).
\<close>

definition ldap_refuses :: "(string \<Rightarrow> bool) \<Rightarrow> js_value \<Rightarrow> bool" where
  "ldap_refuses url_ok v =
     (case v of JString u \<Rightarrow> u = [] \<or> \<not> url_ok u | _ \<Rightarrow> True)"

text \<open>
  The constructor: four assertions, then the fields are set and \<^verbatim>\<open>adminConnect()\<close> is
  called for the first time (\<open>new_service\<close>). This call reaches \<^verbatim>\<open>ldap.createClient(opts)\<close>
  before the constructor returns, so an exception of that check leaves the constructor;
  the later attempts and the password checks pass the same URL, which has been accepted
  by then. No listener can be registered on the service before it is constructed.
\<close>

definition new_service :: "config \<Rightarrow> ldapauth \<times> effect list" where
  "new_service cfg =
     adminConnect \<lparr>opts = cfg, closed = False, adminClient = False, adminConnecting = False,
       admin_retry = None, pending_unbinds = 0, userCache = Map.empty,
       error_listener = False\<rparr>"

definition LdapAuth :: "(string \<Rightarrow> bool) \<Rightarrow> config \<Rightarrow> failure + ldapauth \<times> effect list" where
  "LdapAuth url_ok cfg =
     (if \<not> is_string (url cfg) then Inl (AssertionError ''opts.url'')
      else if \<not> truthy (adminDn cfg) then Inl (AssertionError ''opts.adminDn'')
      else if \<not> truthy (searchBase cfg) then Inl (AssertionError ''opts.searchBase'')
      else if \<not> truthy (searchFilter cfg) then Inl (AssertionError ''opts.searchFilter'')
      else if ldap_refuses url_ok (url cfg) then Inl (TypeError ''options.url'')
      else Inr (new_service cfg))"

text \<open>\<^verbatim>\<open>handleClose\<close>, registered for the admin client's \<^verbatim>\<open>error\<close> and \<^verbatim>\<open>close\<close>.\<close>

definition handleClose :: "ldapauth \<Rightarrow> ldapauth \<times> effect list" where
  "handleClose s =
     (if adminClient s \<and> \<not> adminConnecting s \<and> \<not> closed s
      then adminConnect (s\<lparr>adminClient := False\<rparr>)
      else (s, []))"

text \<open>
  \<^verbatim>\<open>close(cb)\<close>, and the callback it gives to \<^verbatim>\<open>unbind\<close>. The \<^verbatim>\<open>close\<close> event is
  emitted through \<^verbatim>\<open>process.nextTick\<close>, so it follows the invocation of \<^verbatim>\<open>cb\<close>.
\<close>

definition close :: "ldapauth \<Rightarrow> ldapauth \<times> effect list" where
  "close s =
     (let s1 = s\<lparr>closed := True\<rparr>
      in if \<not> adminClient s1 then
           (if adminConnecting s1
            then (s1\<lparr>admin_retry := map_option abort (admin_retry s1)\<rparr>,
                  [RetryAbort, CloseCallback None])
            else (s1, [CloseCallback None]))
         else (s1\<lparr>pending_unbinds := Suc (pending_unbinds s1)\<rparr>,
               [RemoveProxyListeners, Unbind]))"

definition unbind_done :: "ldapauth \<Rightarrow> failure option \<Rightarrow> ldapauth \<times> effect list" where
  "unbind_done s r =
     (if pending_unbinds s = 0 then (s, [])
      else (s\<lparr>pending_unbinds := pending_unbinds s - 1\<rparr>,
            (case r of
               Some err \<Rightarrow> [CloseCallback (Some err)]
             | None \<Rightarrow> [CloseCallback None, Emit ''close'' None])))"

text \<open>
  What can happen to the service: an event of the current admin attempt, the loss of the
  admin client, the answer to an unbind issued by \<^verbatim>\<open>close\<close>, a call of \<^verbatim>\<open>close\<close>, and
  the application registering a listener for \<^verbatim>\<open>error\<close>.
\<close>

datatype event =
    Admin conn_event
  | AdminClientLost
  | UnbindDone "failure option"
  | Close
  | ListenError

fun step :: "ldapauth \<Rightarrow> event \<Rightarrow> ldapauth \<times> effect list" where
  "step s (Admin ev) =
     (case admin_retry s of
        None \<Rightarrow> (s, [])
      | Some c \<Rightarrow>
          (let (c1, out) = conn_step (admin_throws s) (closed s) c ev
           in admin_outs (s\<lparr>admin_retry := Some c1\<rparr>) out))"
| "step s AdminClientLost = handleClose s"
| "step s (UnbindDone r) = unbind_done s r"
| "step s Close = close s"
| "step s ListenError = (s\<lparr>error_listener := True\<rparr>, [])"

fun run :: "ldapauth \<Rightarrow> event list \<Rightarrow> ldapauth \<times> effect list" where
  "run s [] = (s, [])"
| "run s (ev # evs) =
     (let (s1, es1) = step s ev; (s2, es2) = run s1 evs in (s2, es1 @ es2))"

section \<open>Finding the user: \<^verbatim>\<open>_findUser\<close>\<close>

text \<open>
  The search is not started (\<open>NoSearch\<close>), waits for the callback of \<^verbatim>\<open>search\<close>
  (\<open>AwaitSearchCb\<close>), or has its three listeners on the result, with the entries collected
  so far (\<open>Listening\<close>). The listeners are never removed.
\<close>

datatype search_stage = NoSearch | AwaitSearchCb | Listening "user list"

datatype find_out = FDo effect | FCallback "failure + user option"

datatype search_event =
    SearchCb "failure option"
  | SearchEntry user
  | SearchError failure
  | SearchEnd int

definition findUser :: "ldapauth \<Rightarrow> string \<Rightarrow> search_stage \<times> find_out list" where
  "findUser s username =
     (if username = [] then (NoSearch, [FCallback (Inl (JsError ''empty username''))])
      else if \<not> adminClient s
        then (NoSearch, [FCallback (Inl (JsError ''LDAP connection is not yet bound''))])
      else (case string_text (searchFilter (opts s)) of
              Some template \<Rightarrow>
                (AwaitSearchCb,
                 [FDo (Search (searchBase (opts s))
                         (js_replace template ''{{username}}'' username))])
            | None \<Rightarrow>
                (NoSearch, [FDo (Thrown (TypeError ''searchFilter.replace is not a function''))])))"

text \<open>The \<^verbatim>\<open>end\<close> listener.\<close>

definition on_end :: "string \<Rightarrow> user list \<Rightarrow> int \<Rightarrow> failure + user option" where
  "on_end username items status =
     (if status \<noteq> 0 then Inl (NonZeroStatus status)
      else (case items of
              [] \<Rightarrow> Inr None
            | [u] \<Rightarrow> Inr (Some u)
            | _ \<Rightarrow> Inl (UnexpectedMatches (length items) username)))"

fun findUser_step :: "string \<Rightarrow> search_stage \<Rightarrow> search_event \<Rightarrow> search_stage \<times> find_out list" where
  "findUser_step username AwaitSearchCb (SearchCb (Some err)) = (NoSearch, [FCallback (Inl err)])"
| "findUser_step username AwaitSearchCb (SearchCb None) = (Listening [], [])"
| "findUser_step username (Listening items) (SearchEntry u) = (Listening (items @ [u]), [])"
| "findUser_step username (Listening items) (SearchError err) =
     (Listening items, [FCallback (Inl err)])"
| "findUser_step username (Listening items) (SearchEnd status) =
     (Listening items, [FCallback (on_end username items status)])"
| "findUser_step username stage ev = (stage, [])"

fun findUser_run :: "string \<Rightarrow> search_stage \<Rightarrow> search_event list \<Rightarrow> search_stage \<times> find_out list" where
  "findUser_run username stage [] = (stage, [])"
| "findUser_run username stage (ev # evs) =
     (let (st1, out1) = findUser_step username stage ev;
          (st2, out2) = findUser_run username st1 evs
      in (st2, out1 @ out2))"

section \<open>\<^verbatim>\<open>authenticate\<close>\<close>

text \<open>
  One password check started by \<^verbatim>\<open>authenticate\<close> for a user that \<^verbatim>\<open>_findUser\<close> gave:
  its connector, and what the chain of callbacks waits for: the connector's callback
  (\<open>VBinding\<close>), the answer to \<^verbatim>\<open>client.unbind\<close> (\<open>VUnbinding\<close>), the hash from
  \<^verbatim>\<open>bcrypt.hash\<close> (\<open>VHashing\<close>), or nothing (\<open>VDone\<close>).
\<close>

datatype verif_stage = VBinding | VUnbinding | VHashing | VDone

record verification =
  v_user :: user
  v_conn :: connector
  v_stage :: verif_stage

text \<open>
  One call of \<^verbatim>\<open>authenticate\<close>: its arguments, the state of its search, and the password
  checks it has started (one for each time \<^verbatim>\<open>_findUser\<close> called back with a user).
\<close>

record auth_call =
  a_username :: string
  a_password :: string
  a_search :: search_stage
  a_verifs :: "verification list"

datatype verif_event =
    VConn conn_event
  | VUnbindDone "failure option"
  | VHashDone string

datatype auth_event = Find search_event | Verif nat verif_event

text \<open>
  The callback \<^verbatim>\<open>authenticate\<close> gives to \<^verbatim>\<open>_createClient\<close>. With neither an error nor a
  client, \<^verbatim>\<open>client.unbind\<close> is read from \<^verbatim>\<open>undefined\<close>: this is the one case in which
  it throws (\<open>user_throws\<close>); the function the application gave to \<^verbatim>\<open>authenticate\<close> is
  taken to return.
\<close>

definition user_throws :: "cb_args \<Rightarrow> bool" where
  "user_throws args = (args = CbNothing)"

definition user_cb :: "verification \<Rightarrow> cb_args \<Rightarrow> verification \<times> effect list" where
  "user_cb v args =
     (case args of
        CbErr err \<Rightarrow> (v\<lparr>v_stage := VDone\<rparr>, [AuthCallback (Inl err)])
      | CbClient \<Rightarrow> (v\<lparr>v_stage := VUnbinding\<rparr>, [Unbind])
      | CbNothing \<Rightarrow> (v\<lparr>v_stage := VDone\<rparr>, [Thrown (TypeError ''client is undefined'')]))"

fun user_outs :: "verification \<Rightarrow> conn_out list \<Rightarrow> verification \<times> effect list" where
  "user_outs v [] = (v, [])"
| "user_outs v (Do e # out) = (let (v1, es) = user_outs v out in (v1, e # es))"
| "user_outs v (Call args # out) =
     (let (v1, es1) = user_cb v args; (v2, es2) = user_outs v1 out in (v2, es1 @ es2))"

fun verif_step ::
  "ldapauth \<Rightarrow> string \<Rightarrow> string \<Rightarrow> verification \<Rightarrow> verif_event \<Rightarrow>
   (ldapauth \<times> verification) \<times> effect list" where
  "verif_step s username password v (VConn ev) =
     (let (c1, out) = conn_step user_throws (closed s) (v_conn v) ev;
          (v1, es) = user_outs (v\<lparr>v_conn := c1\<rparr>) out
      in ((s, v1), es))"
| "verif_step s username password v (VUnbindDone unbindErr) =
     (if v_stage v \<noteq> VUnbinding then ((s, v), [])
      else if cache (opts s) then ((s, v\<lparr>v_stage := VHashing\<rparr>), [HashPassword password])
      else ((s, v\<lparr>v_stage := VDone\<rparr>), [AuthCallback (Inr (v_user v))]))"
| "verif_step s username password v (VHashDone hash) =
     (if v_stage v \<noteq> VHashing then ((s, v), [])
      else (let entry = \<lparr>ce_password = hash, ce_user = v_user v\<rparr>
            in ((s\<lparr>userCache := (userCache s)(username \<mapsto> entry)\<rparr>, v\<lparr>v_stage := VDone\<rparr>),
                [CacheSet username entry, AuthCallback (Inr (v_user v))])))"

text \<open>The callback \<^verbatim>\<open>authenticate\<close> gives to \<^verbatim>\<open>_findUser\<close>.\<close>

definition on_found :: "ldapauth \<Rightarrow> auth_call \<Rightarrow> failure + user option \<Rightarrow> auth_call \<times> effect list" where
  "on_found s a r =
     (case r of
        Inl err \<Rightarrow> (a, [AuthCallback (Inl err)])
      | Inr None \<Rightarrow> (a, [AuthCallback (Inl (NoSuchUser (a_username a)))])
      | Inr (Some u) \<Rightarrow>
          (let (c, es) = createClient (JString (dn u)) (JString (a_password a)) (retry (opts s))
           in (a\<lparr>a_verifs := a_verifs a @ [\<lparr>v_user = u, v_conn = c, v_stage = VBinding\<rparr>]\<rparr>, es)))"

fun found_outs :: "ldapauth \<Rightarrow> auth_call \<Rightarrow> find_out list \<Rightarrow> auth_call \<times> effect list" where
  "found_outs s a [] = (a, [])"
| "found_outs s a (FDo e # out) = (let (a1, es) = found_outs s a out in (a1, e # es))"
| "found_outs s a (FCallback r # out) =
     (let (a1, es1) = on_found s a r; (a2, es2) = found_outs s a1 out in (a2, es1 @ es2))"

text \<open>
  \<^verbatim>\<open>authenticate(username, password, callback)\<close> up to its first return. \<open>compareSync\<close>
  stands for \<^verbatim>\<open>bcrypt.compareSync(password, hash)\<close>.
\<close>

definition cache_get :: "ldapauth \<Rightarrow> string \<Rightarrow> cache_entry option" where
  "cache_get s username = (if cache (opts s) then userCache s username else None)"

definition authenticate ::
  "(string \<Rightarrow> string \<Rightarrow> bool) \<Rightarrow> ldapauth \<Rightarrow> string \<Rightarrow> string \<Rightarrow> auth_call \<times> effect list" where
  "authenticate compareSync s username password =
     (let a = \<lparr>a_username = username, a_password = password, a_search = NoSearch, a_verifs = []\<rparr>;
          find = (let (stage, out) = findUser s username
                  in found_outs s (a\<lparr>a_search := stage\<rparr>) out)
      in (case cache_get s username of
            Some cached \<Rightarrow>
              (if compareSync password (ce_password cached)
               then (a, [AuthCallback (Inr (ce_user cached))])
               else find)
          | None \<Rightarrow> find))"

fun auth_step :: "ldapauth \<Rightarrow> auth_call \<Rightarrow> auth_event \<Rightarrow> (ldapauth \<times> auth_call) \<times> effect list" where
  "auth_step s a (Find ev) =
     (let (stage, out) = findUser_step (a_username a) (a_search a) ev;
          (a1, es) = found_outs s (a\<lparr>a_search := stage\<rparr>) out
      in ((s, a1), es))"
| "auth_step s a (Verif i ev) =
     (if i < length (a_verifs a) then
        (let ((s1, v1), es) = verif_step s (a_username a) (a_password a) (a_verifs a ! i) ev
         in ((s1, a\<lparr>a_verifs := (a_verifs a)[i := v1]\<rparr>), es))
      else ((s, a), []))"

fun auth_run :: "ldapauth \<Rightarrow> auth_call \<Rightarrow> auth_event list \<Rightarrow> (ldapauth \<times> auth_call) \<times> effect list" where
  "auth_run s a [] = ((s, a), [])"
| "auth_run s a (ev # evs) =
     (let ((s1, a1), es1) = auth_step s a ev; (sa2, es2) = auth_run s1 a1 evs
      in (sa2, es1 @ es2))"

text \<open>How often the caller's callback was invoked, and how many attempts and binds were made.\<close>

fun is_auth_callback :: "effect \<Rightarrow> bool" where
  "is_auth_callback (AuthCallback r) = True"
| "is_auth_callback e = False"

fun is_bind :: "effect \<Rightarrow> bool" where
  "is_bind (Bind d p) = True"
| "is_bind e = False"

definition callbacks :: "effect list \<Rightarrow> nat" where
  "callbacks es = length (filter is_auth_callback es)"

definition attempts :: "effect list \<Rightarrow> nat" where
  "attempts es = count_list es CreateClient"

section \<open>Runs, counters and invariants\<close>

text \<open>The connector and one password check, run over a list of events.\<close>

fun conn_run ::
  "(cb_args \<Rightarrow> bool) \<Rightarrow> bool \<Rightarrow> connector \<Rightarrow> conn_event list \<Rightarrow> connector \<times> conn_out list" where
  "conn_run throws is_closed c [] = (c, [])"
| "conn_run throws is_closed c (ev # evs) =
     (let (c1, out1) = conn_step throws is_closed c ev;
          (c2, out2) = conn_run throws is_closed c1 evs
      in (c2, out1 @ out2))"


text \<open>The failures handed to the backoff for another attempt, counted in a trace.\<close>

fun is_backoff :: "effect \<Rightarrow> bool" where
  "is_backoff (BackoffScheduled n) = True"
| "is_backoff e = False"

definition backoffs :: "effect list \<Rightarrow> nat" where
  "backoffs es = length (filter is_backoff es)"


section \<open>What the directory does to a password check\<close>







section \<open>Invariants\<close>

text \<open>
  A connector that still waits for something is running and has not called
  back (\<open>conn_fresh\<close>); a password check waits for its connector exactly as long as the
  connector has not called back (\<open>verif_ok\<close>), and it keeps the credentials and the retry
  limit it was started with (\<open>check_ok\<close>; \<open>call_ok\<close> for all checks of a call, which are
  all for the first entry the search delivered). Before \<^verbatim>\<open>close\<close> is called, no unbind of
  \<^verbatim>\<open>close\<close> is outstanding, and the admin connector waits for nothing once its callback
  has cleared \<^verbatim>\<open>_adminConnecting\<close> (\<open>starting\<close>). After \<^verbatim>\<open>close\<close> without an admin client,
  the admin connector waits for nothing or is aborted with no delay pending (\<open>shut\<close>).
\<close>

definition conn_fresh :: "connector \<Rightarrow> bool" where
  "conn_fresh c = (phase c = Settled \<or> (call_state c = Running \<and> \<not> cb_called c))"

definition verif_ok :: "verification \<Rightarrow> bool" where
  "verif_ok v = ((v_stage v = VBinding) = (\<not> cb_called (v_conn v)) \<and> conn_fresh (v_conn v))"



definition retry_ok :: "ldapauth \<Rightarrow> bool" where
  "retry_ok s =
     (case admin_retry s of
        None \<Rightarrow> True
      | Some c \<Rightarrow> (call_state c = Completed \<longrightarrow> phase c = Settled) \<and>
                  (\<not> adminConnecting s \<longrightarrow> phase c = Settled))"

definition starting :: "ldapauth \<Rightarrow> bool" where
  "starting s = (\<not> closed s \<and> pending_unbinds s = 0 \<and> retry_ok s)"

definition retry_dead :: "ldapauth \<Rightarrow> bool" where
  "retry_dead s =
     (case admin_retry s of
        None \<Rightarrow> True
      | Some c \<Rightarrow> phase c = Settled \<or> (call_state c = Aborted \<and> phase c \<noteq> Sleeping))"

definition shut :: "ldapauth \<Rightarrow> bool" where
  "shut s = (closed s \<and> \<not> adminClient s \<and> pending_unbinds s = 0 \<and> retry_dead s)"

section \<open>Example data\<close>

text \<open>
  The scenario of the specification: one entry \<^verbatim>\<open>uid=jdoe\<close> under \<^verbatim>\<open>ou=users\<close>. The
  service right after construction, and after its first admin attempt has connected and
  bound.
\<close>

definition example_config :: config where
  "example_config =
     \<lparr>url = JString ''ldap://ldap.example.com'', adminDn = JString ''cn=admin'',
      adminPassword = JString ''adminpw'', searchBase = JString ''ou=users'',
      searchFilter = JString ''(uid={{username}})'', cache = False, retry = None\<rparr>"

definition jdoe :: user where
  "jdoe = \<lparr>dn = ''uid=jdoe,ou=users'', attrs = [(''uid'', ''jdoe'')]\<rparr>"

text \<open>A check of URLs for the examples: the scheme is \<^verbatim>\<open>ldap\<close> or \<^verbatim>\<open>ldaps\<close>.\<close>

definition example_url_ok :: "string \<Rightarrow> bool" where
  "example_url_ok u = (is_prefix ''ldap://'' u \<or> is_prefix ''ldaps://'' u)"

definition example_started :: ldapauth where
  "example_started = fst (new_service example_config)"

definition example_connected :: ldapauth where
  "example_connected = fst (run example_started [Admin OnConnect, Admin (BindResult None)])"

definition example_cached :: ldapauth where
  "example_cached =
     example_connected\<lparr>opts := example_config\<lparr>cache := True\<rparr>,
       userCache := [''jdoe'' \<mapsto> \<lparr>ce_password = ''hash-of-secret'', ce_user = jdoe\<rparr>]\<rparr>"

definition example_compare :: "string \<Rightarrow> string \<Rightarrow> bool" where
  "example_compare password hash = (hash = ''hash-of-'' @ password)"




definition example_in_bind :: ldapauth where
  "example_in_bind = fst (run example_started [Admin OnConnect])"


section \<open>The example states, computed\<close>

lemma example_started_eq:
  "example_started =
     \<lparr>opts = example_config, closed = False, adminClient = False, adminConnecting = True,
      admin_retry = Some \<lparr>cred_dn = JString ''cn=admin'', cred_passwd = JString ''adminpw'',
        call_state = Running, phase = Connecting, backoffNumber = 0, maxRetries = None,
        cb_called = False\<rparr>,
      pending_unbinds = 0, userCache = Map.empty, error_listener = False\<rparr>"
  by (simp add: example_started_def new_service_def adminConnect_def createClient_def
      retry_limit_def example_config_def)

lemma example_connected_eq:
  "example_connected =
     \<lparr>opts = example_config, closed = False, adminClient = True, adminConnecting = False,
      admin_retry = Some \<lparr>cred_dn = JString ''cn=admin'', cred_passwd = JString ''adminpw'',
        call_state = Completed, phase = Settled, backoffNumber = 0, maxRetries = None,
        cb_called = True\<rparr>,
      pending_unbinds = 0, userCache = Map.empty, error_listener = False\<rparr>"
  by (simp add: example_connected_def example_started_eq attempt_report_def once_cb_def
      admin_cb_def on_bind_def)

lemma example_url_ok_config: "\<not> ldap_refuses example_url_ok (url example_config)"
  by (simp add: ldap_refuses_def example_url_ok_def example_config_def)

section \<open>Validation at construction\<close>

text \<open>
  C9. A configuration that the constructor accepts has a URL that is a non-empty string,
  and an admin DN, a search base and a search filter that are truthy, so that none of the
  four is missing or empty; the first admin attempt is then started. A configuration in
  which one of the four is missing or empty is rejected: the constructor throws an
  assertion failure, or the \<^verbatim>\<open>TypeError\<close> of \<^verbatim>\<open>ldap.createClient\<close> for an empty URL, and
  has created no client.
\<close>

theorem LdapAuth_validation:
  "(case LdapAuth url_ok cfg of
      Inl err \<Rightarrow> (\<exists>m. err = AssertionError m) \<or> (\<exists>m. err = TypeError m)
    | Inr (s, es) \<Rightarrow>
        (\<exists>u. url cfg = JString u \<and> u \<noteq> [] \<and> url_ok u) \<and>
        truthy (adminDn cfg) \<and> truthy (searchBase cfg) \<and> truthy (searchFilter cfg) \<and>
        \<not> missing_or_empty (url cfg) \<and> \<not> missing_or_empty (adminDn cfg) \<and>
        \<not> missing_or_empty (searchBase cfg) \<and> \<not> missing_or_empty (searchFilter cfg) \<and>
        opts s = cfg \<and> es = [CreateClient]) \<and>
   (missing_or_empty (url cfg) \<or> missing_or_empty (adminDn cfg) \<or>
    missing_or_empty (searchBase cfg) \<or> missing_or_empty (searchFilter cfg) \<longrightarrow>
      (\<exists>err. LdapAuth url_ok cfg = Inl err))"
proof -
  have falsy: "missing_or_empty v \<Longrightarrow> \<not> truthy v" for v
    by (cases v) auto
  have url: "missing_or_empty v \<Longrightarrow> \<not> is_string v \<or> ldap_refuses url_ok v" for v
    by (cases v) (auto simp: ldap_refuses_def)
  have accepted: "is_string (url cfg) \<Longrightarrow> \<not> ldap_refuses url_ok (url cfg) \<Longrightarrow>
      (\<exists>u. url cfg = JString u \<and> u \<noteq> [] \<and> url_ok u) \<and> \<not> missing_or_empty (url cfg)"
    by (cases "url cfg") (auto simp: ldap_refuses_def)
  show ?thesis
    using falsy [of "adminDn cfg"] falsy [of "searchBase cfg"] falsy [of "searchFilter cfg"]
      url [of "url cfg"] accepted
    by (auto simp: LdapAuth_def new_service_def adminConnect_def createClient_def)
qed

theorem LdapAuth_validation_witness:
  "LdapAuth example_url_ok example_config = Inr (example_started, [CreateClient]) \<and>
   missing_or_empty (url (example_config\<lparr>url := JString []\<rparr>)) \<and>
   LdapAuth example_url_ok (example_config\<lparr>url := JString []\<rparr>) =
     Inl (TypeError ''options.url'') \<and>
   LdapAuth example_url_ok (example_config\<lparr>searchBase := JString []\<rparr>) =
     Inl (AssertionError ''opts.searchBase'') \<and>
   LdapAuth example_url_ok (example_config\<lparr>url := JUndefined\<rparr>) =
     Inl (AssertionError ''opts.url'')"
proof -
  have 1: "missing_or_empty (url (example_config\<lparr>url := JString []\<rparr>))"
    by simp
  from LdapAuth_validation [where url_ok = example_url_ok
      and cfg = "example_config\<lparr>url := JString []\<rparr>"] 1
  obtain err where "LdapAuth example_url_ok (example_config\<lparr>url := JString []\<rparr>) = Inl err"
    by blast
  then have 2: "LdapAuth example_url_ok (example_config\<lparr>url := JString []\<rparr>) =
      Inl (TypeError ''options.url'')"
    by (simp add: LdapAuth_def example_config_def ldap_refuses_def split: if_splits)
  have 3: "LdapAuth example_url_ok example_config = Inr (example_started, [CreateClient])"
    using example_url_ok_config
    by (simp add: LdapAuth_def example_started_def new_service_def adminConnect_def
        createClient_def example_config_def)
  have 4: "LdapAuth example_url_ok (example_config\<lparr>searchBase := JString []\<rparr>) =
      Inl (AssertionError ''opts.searchBase'')"
    by (simp add: LdapAuth_def example_config_def)
  have 5: "LdapAuth example_url_ok (example_config\<lparr>url := JUndefined\<rparr>) =
      Inl (AssertionError ''opts.url'')"
    by (simp add: LdapAuth_def example_config_def)
  from 1 2 3 4 5 show ?thesis by blast
qed

section \<open>The search filter\<close>

text \<open>A replacement text without a dollar sign is put in as it is.\<close>

lemma getSubstitution_plain:
  "CHR ''$'' \<notin> set repl \<Longrightarrow> getSubstitution m p f repl = repl"
  by (induction m p f repl rule: getSubstitution.induct) auto

lemma js_replace_plain:
  "CHR ''$'' \<notin> set repl \<Longrightarrow> indexOf str pat = Some i \<Longrightarrow>
   js_replace str pat repl = take i str @ repl @ drop (i + length pat) str"
  by (simp add: js_replace_def getSubstitution_plain)

text \<open>
  C10. The filter sent for the username \<^verbatim>\<open>ca$$h\<close> is \<^verbatim>\<open>(uid=ca$h)\<close>: the username is
  not put in verbatim, since \<^verbatim>\<open>replace\<close> reads \<^verbatim>\<open>$$\<close> in its second argument as one
  dollar sign.
\<close>

theorem findUser_filter_dollar:
  "findUser example_connected ''ca$$h'' =
     (AwaitSearchCb, [FDo (Search (JString ''ou=users'') ''(uid=ca$h)'')])"
  by (simp add: example_connected_eq example_config_def findUser_def js_replace_def)

section \<open>The result of \<^verbatim>\<open>_findUser\<close>\<close>

lemma findUser_run_NoSearch: "findUser_run username NoSearch evs = (NoSearch, [])"
  by (induction evs) auto

lemma findUser_run_entries:
  "findUser_run username (Listening items) (map SearchEntry us @ evs) =
   findUser_run username (Listening (items @ us)) evs"
  by (induction us arbitrary: items) auto

text \<open>
  C4. A search whose callback reports no error, whose result then delivers the entries
  \<open>us\<close> and ends with status 0, makes \<^verbatim>\<open>_findUser\<close> call back once, with what the number
  of entries decides: no user and no error for none, the entry for one, the error about
  the number of matches for more.
\<close>

theorem findUser_result_policy:
  "findUser_run username AwaitSearchCb (SearchCb None # map SearchEntry us @ [SearchEnd 0]) =
     (Listening us,
      [FCallback (case us of
                    [] \<Rightarrow> Inr None
                  | [u] \<Rightarrow> Inr (Some u)
                  | _ \<Rightarrow> Inl (UnexpectedMatches (length us) username))])"
  by (simp add: findUser_run_entries on_end_def)

text \<open>
  C8. An empty username gives the error \<^verbatim>\<open>empty username\<close>; a non-empty one without an
  admin client gives \<^verbatim>\<open>LDAP connection is not yet bound\<close> (the username is tested first).
  In both cases \<^verbatim>\<open>_findUser\<close> does nothing but call back: no search is issued, and no
  later event makes it do anything.
\<close>

theorem findUser_preconditions:
  "(username = [] \<longrightarrow>
      findUser s username = (NoSearch, [FCallback (Inl (JsError ''empty username''))])) \<and>
   (username \<noteq> [] \<and> \<not> adminClient s \<longrightarrow>
      findUser s username =
        (NoSearch, [FCallback (Inl (JsError ''LDAP connection is not yet bound''))])) \<and>
   (username = [] \<or> \<not> adminClient s \<longrightarrow>
      (\<forall>evs. findUser_run username (fst (findUser s username)) evs = (NoSearch, [])) \<and>
      (\<forall>e. FDo e \<notin> set (snd (findUser s username))))"
  by (auto simp: findUser_def findUser_run_NoSearch)

theorem findUser_preconditions_witness:
  "findUser example_connected [] = (NoSearch, [FCallback (Inl (JsError ''empty username''))]) \<and>
   \<not> adminClient example_started \<and>
   findUser example_started ''jdoe'' =
     (NoSearch, [FCallback (Inl (JsError ''LDAP connection is not yet bound''))]) \<and>
   findUser_run ''jdoe'' (fst (findUser example_started ''jdoe'')) [SearchCb None, SearchEnd 0] =
     (NoSearch, [])"
  using findUser_preconditions [of "[]" example_connected]
    findUser_preconditions [of "''jdoe''" example_started]
  by (simp add: example_started_eq)

section \<open>The cache in \<^verbatim>\<open>authenticate\<close>\<close>

lemma auth_run_idle:
  "a_search a = NoSearch \<Longrightarrow> a_verifs a = [] \<Longrightarrow> auth_run s a evs = ((s, a), [])"
proof (induction evs)
  case Nil
  then show ?case by simp
next
  case (Cons ev evs)
  have "auth_step s a ev = ((s, a), [])"
    using Cons.prems by (cases ev) auto
  with Cons show ?case by simp
qed

text \<open>
  C7. With the cache enabled, an entry for the username whose stored hash
  \<^verbatim>\<open>bcrypt.compareSync\<close> accepts for the given password makes \<^verbatim>\<open>authenticate\<close> call back
  with the cached user and do nothing else: no search, no client, no bind, now or on any
  later event.
\<close>

theorem authenticate_cache_hit:
  assumes "cache (opts s)"
      and "userCache s username = Some cached"
      and "compareSync password (ce_password cached)"
  shows "snd (authenticate compareSync s username password) =
           [AuthCallback (Inr (ce_user cached))] \<and>
         (\<forall>evs. snd (auth_run s (fst (authenticate compareSync s username password)) evs) = [])"
  using assms by (simp add: authenticate_def cache_get_def auth_run_idle)

theorem authenticate_cache_hit_witness:
  "cache (opts example_cached) \<and>
   userCache example_cached ''jdoe'' = Some \<lparr>ce_password = ''hash-of-secret'', ce_user = jdoe\<rparr> \<and>
   example_compare ''secret'' ''hash-of-secret'' \<and>
   snd (authenticate example_compare example_cached ''jdoe'' ''secret'') =
     [AuthCallback (Inr jdoe)] \<and>
   snd (auth_run example_cached
          (fst (authenticate example_compare example_cached ''jdoe'' ''secret''))
          [Find (SearchCb None), Find (SearchEnd 0)]) = []"
proof -
  have c: "cache (opts example_cached)"
    by (simp add: example_cached_def example_config_def)
  have u: "userCache example_cached ''jdoe'' =
      Some \<lparr>ce_password = ''hash-of-secret'', ce_user = jdoe\<rparr>"
    by (simp add: example_cached_def)
  have p: "example_compare ''secret''
      (ce_password \<lparr>ce_password = ''hash-of-secret'', ce_user = jdoe\<rparr>)"
    by (simp add: example_compare_def)
  have p': "example_compare ''secret'' ''hash-of-secret''"
    using p by simp
  note hit = authenticate_cache_hit [OF c u, of example_compare "''secret''", OF p]
  have r: "snd (authenticate example_compare example_cached ''jdoe'' ''secret'') =
      [AuthCallback (Inr jdoe)]"
    using hit by simp
  have q: "snd (auth_run example_cached
      (fst (authenticate example_compare example_cached ''jdoe'' ''secret''))
      [Find (SearchCb None), Find (SearchEnd 0)]) = []"
    using hit by blast
  from c u p' r q show ?thesis by blast
qed

section \<open>Bind failures in the connector\<close>

lemma conn_step_Settled: "phase c = Settled \<Longrightarrow> conn_step t cl c ev = (c, [])"
  by (cases ev) auto

lemma conn_run_Settled: "phase c = Settled \<Longrightarrow> conn_run t cl c evs = (c, [])"
  by (induction evs) (auto simp: conn_step_Settled)


lemma example_in_bind_run:
  "run example_started [Admin OnConnect] =
     (example_in_bind, [Bind (JString ''cn=admin'') (JString ''adminpw'')])"
  by (simp add: example_in_bind_def example_started_eq)

lemma example_in_bind_eq:
  "example_in_bind =
     \<lparr>opts = example_config, closed = False, adminClient = False, adminConnecting = True,
      admin_retry = Some \<lparr>cred_dn = JString ''cn=admin'', cred_passwd = JString ''adminpw'',
        call_state = Running, phase = Binding, backoffNumber = 0, maxRetries = None,
        cb_called = False\<rparr>,
      pending_unbinds = 0, userCache = Map.empty, error_listener = False\<rparr>"
  by (simp add: example_in_bind_def example_started_eq)




section \<open>Closing the service\<close>

lemma abort_idem: "abort (abort c) = abort c"
  by (simp add: abort_def)

lemma starting_new_service: "starting (fst (new_service cfg))"
  by (simp add: starting_def retry_ok_def new_service_def adminConnect_def createClient_def)

lemma starting_step:
  assumes "starting s" and "ev \<noteq> Close"
  shows "starting (fst (step s ev))"
proof (cases ev)
  case (Admin cev)
  show ?thesis
  proof (cases "admin_retry s")
    case None
    with Admin assms show ?thesis by simp
  next
    case (Some c)
    with Admin assms show ?thesis
      by (cases cev)
         (auto simp: starting_def retry_ok_def attempt_report_def once_cb_def on_bind_def
               abort_def admin_cb_def admin_throws_def Let_def
               split: option.splits prod.splits cb_args.splits if_splits)
  qed
next
  case AdminClientLost
  with assms show ?thesis
    by (auto simp: starting_def retry_ok_def handleClose_def adminConnect_def createClient_def
             split: option.splits)
next
  case (UnbindDone r)
  with assms show ?thesis
    by (auto simp: starting_def retry_ok_def unbind_done_def)
next
  case Close
  with assms show ?thesis by simp
next
  case ListenError
  with assms show ?thesis
    by (auto simp: starting_def retry_ok_def split: option.splits)
qed

lemma starting_run:
  "starting s \<Longrightarrow> Close \<notin> set evs \<Longrightarrow> starting (fst (run s evs))"
proof (induction evs arbitrary: s)
  case Nil
  then show ?case by simp
next
  case (Cons ev evs)
  from Cons.prems have "starting (fst (step s ev))"
    by (intro starting_step) auto
  with Cons.prems have "starting (fst (run (fst (step s ev)) evs))"
    by (intro Cons.IH) auto
  then show ?case by (simp add: split_beta)
qed

lemma close_starting:
  assumes "starting s" and "\<not> adminClient s"
  shows "shut (fst (close s))"
    and "snd (close s) = [RetryAbort, CloseCallback None] \<or> snd (close s) = [CloseCallback None]"
  using assms
  by (auto simp: starting_def shut_def retry_ok_def retry_dead_def close_def abort_def Let_def
           split: option.splits)

lemma shut_step:
  assumes "shut s"
  shows "shut (fst (step s ev))"
    and "set (snd (step s ev)) \<subseteq> {SocketEnd, RetryAbort, CloseCallback None}"
proof -
  have "shut (fst (step s ev)) \<and>
        set (snd (step s ev)) \<subseteq> {SocketEnd, RetryAbort, CloseCallback None}"
  proof (cases ev)
    case (Admin cev)
    show ?thesis
    proof (cases "admin_retry s")
      case None
      with Admin assms show ?thesis by simp
    next
      case (Some c)
      with Admin assms show ?thesis
        by (cases cev)
           (auto simp: shut_def retry_dead_def attempt_report_def on_bind_def Let_def
                 split: option.splits prod.splits if_splits)
    qed
  next
    case AdminClientLost
    with assms show ?thesis by (auto simp: shut_def retry_dead_def handleClose_def)
  next
    case (UnbindDone r)
    with assms show ?thesis by (auto simp: shut_def retry_dead_def unbind_done_def)
  next
    case Close
    with assms show ?thesis
      by (auto simp: shut_def retry_dead_def close_def abort_def Let_def split: option.splits)
  next
    case ListenError
    with assms show ?thesis
      by (auto simp: shut_def retry_dead_def split: option.splits)
  qed
  then show "shut (fst (step s ev))"
    and "set (snd (step s ev)) \<subseteq> {SocketEnd, RetryAbort, CloseCallback None}"
    by blast+
qed

lemma shut_run:
  "shut s \<Longrightarrow>
   shut (fst (run s evs)) \<and>
   set (snd (run s evs)) \<subseteq> {SocketEnd, RetryAbort, CloseCallback None}"
proof (induction evs arbitrary: s)
  case Nil
  then show ?case by simp
next
  case (Cons ev evs)
  from Cons.prems have 1: "shut (fst (step s ev))"
    and 2: "set (snd (step s ev)) \<subseteq> {SocketEnd, RetryAbort, CloseCallback None}"
    by (rule shut_step)+
  from Cons.IH [OF 1] 2 show ?case
    by (simp add: split_beta)
qed

lemma shut_teardown:
  assumes "shut s" and "admin_retry s = Some c"
  shows "phase c = Connecting \<Longrightarrow> snd (step s (Admin OnConnect)) = [SocketEnd]"
    and "phase c = Binding \<Longrightarrow> snd (step s (Admin (BindResult r))) = [SocketEnd]"
  using assms
  by (auto simp: shut_def retry_dead_def attempt_report_def on_bind_def)

text \<open>
  C5. Construct the service from an accepted configuration, let anything but a call of
  \<^verbatim>\<open>close\<close> happen, and call \<^verbatim>\<open>close\<close> while there is no admin client. The call invokes
  its callback once, without an error, after aborting the retry if one is registered.
  Whatever happens afterwards, the service ends sockets, aborts the retry again and
  answers further calls of \<^verbatim>\<open>close\<close>, and does nothing else: it creates no client, sends
  no bind, stores no admin client and emits no \<^verbatim>\<open>connect\<close>. An attempt in flight ends its
  socket when its connection is established or its bind is answered.
\<close>

theorem close_before_connect:
  assumes "LdapAuth url_ok cfg = Inr (s0, es0)"
      and "Close \<notin> set evs1"
      and "run s0 evs1 = (s1, es1)"
      and "\<not> adminClient s1"
  shows "(snd (close s1) = [RetryAbort, CloseCallback None] \<or>
          snd (close s1) = [CloseCallback None]) \<and>
         (\<forall>evs2. set (snd (run (fst (close s1)) evs2))
                    \<subseteq> {SocketEnd, RetryAbort, CloseCallback None} \<and>
                 \<not> adminClient (fst (run (fst (close s1)) evs2))) \<and>
         (\<forall>c r. admin_retry (fst (close s1)) = Some c \<longrightarrow>
                 (phase c = Connecting \<longrightarrow>
                    snd (step (fst (close s1)) (Admin OnConnect)) = [SocketEnd]) \<and>
                 (phase c = Binding \<longrightarrow>
                    snd (step (fst (close s1)) (Admin (BindResult r))) = [SocketEnd]))"
proof -
  from assms(1) have "s0 = fst (new_service cfg)"
    by (auto simp: LdapAuth_def split: if_splits)
  then have "starting s0"
    by (simp add: starting_new_service)
  then have "starting (fst (run s0 evs1))"
    using assms(2) by (rule starting_run)
  with assms(3) have st: "starting s1"
    by simp
  from close_starting [OF st assms(4)]
  have sh: "shut (fst (close s1))"
    and cb: "snd (close s1) = [RetryAbort, CloseCallback None] \<or>
             snd (close s1) = [CloseCallback None]"
    by blast+
  have later: "\<forall>evs2. set (snd (run (fst (close s1)) evs2))
                    \<subseteq> {SocketEnd, RetryAbort, CloseCallback None} \<and>
                 \<not> adminClient (fst (run (fst (close s1)) evs2))"
    using shut_run [OF sh] by (auto simp: shut_def)
  from cb later shut_teardown [OF sh] show ?thesis
    by blast
qed

theorem close_before_connect_witness:
  "LdapAuth example_url_ok example_config = Inr (example_started, [CreateClient]) \<and>
   Close \<notin> set [Admin OnConnect] \<and>
   run example_started [Admin OnConnect] =
     (example_in_bind, [Bind (JString ''cn=admin'') (JString ''adminpw'')]) \<and>
   \<not> adminClient example_in_bind \<and>
   snd (close example_in_bind) = [RetryAbort, CloseCallback None] \<and>
   set (snd (run (fst (close example_in_bind))
               [Admin (BindResult None), Admin TimerFired, Close]))
     \<subseteq> {SocketEnd, RetryAbort, CloseCallback None} \<and>
   snd (run (fst (close example_in_bind)) [Admin (BindResult None), Admin TimerFired, Close]) =
     [SocketEnd, RetryAbort, CloseCallback None] \<and>
   \<not> adminClient (fst (run (fst (close example_in_bind))
                        [Admin (BindResult None), Admin TimerFired, Close]))"
proof -
  have 1: "LdapAuth example_url_ok example_config = Inr (example_started, [CreateClient])"
    using example_url_ok_config
    by (simp add: LdapAuth_def example_started_def new_service_def adminConnect_def
        createClient_def example_config_def)
  have 2: "Close \<notin> set [Admin OnConnect]"
    by simp
  have 4: "\<not> adminClient example_in_bind"
    by (simp add: example_in_bind_eq)
  note t = close_before_connect [OF 1 2 example_in_bind_run 4]
  have 5: "snd (close example_in_bind) = [RetryAbort, CloseCallback None]"
    by (simp add: example_in_bind_eq close_def)
  have 6: "set (snd (run (fst (close example_in_bind))
                  [Admin (BindResult None), Admin TimerFired, Close]))
     \<subseteq> {SocketEnd, RetryAbort, CloseCallback None}"
    using t by blast
  have 7: "\<not> adminClient (fst (run (fst (close example_in_bind))
                        [Admin (BindResult None), Admin TimerFired, Close]))"
    using t by blast
  have 8: "snd (run (fst (close example_in_bind))
                 [Admin (BindResult None), Admin TimerFired, Close]) =
     [SocketEnd, RetryAbort, CloseCallback None]"
    by (simp add: example_in_bind_eq close_def abort_def on_bind_def attempt_report_def)
  from 1 2 example_in_bind_run 4 5 6 7 8 show ?thesis
    by blast
qed

text \<open>
  C6 (amended). \<^verbatim>\<open>close\<close> can be called in every state, and it marks the service as
  closed. Without an admin client, while an admin connection is being made, it aborts the
  retry and then invokes its callback without an error: the connector is aborted unless its
  call had completed, no delay is pending, and whatever an attempt reports later is
  dropped. Without an admin client and with no connection being made, it only invokes its
  callback without an error. In both cases it sends no unbind and emits nothing, and
  calling it again gives the same effects and leaves the state as it is. With an admin
  client every call sends an unbind and invokes its callback only when the unbind is
  answered: when the unbind succeeds, the callback is invoked without an error and one
  \<^verbatim>\<open>close\<close> event is emitted for this call; when it fails, the callback gets the error and
  nothing is emitted.
\<close>

theorem close_behaviour:
  "(\<not> adminClient s \<and> adminConnecting s \<longrightarrow>
      close s = (s\<lparr>closed := True, admin_retry := map_option abort (admin_retry s)\<rparr>,
                 [RetryAbort, CloseCallback None]) \<and>
      (\<forall>c. admin_retry s = Some c \<and> call_state c \<noteq> Completed \<longrightarrow>
             admin_retry (fst (close s)) = Some (abort c) \<and>
             call_state (abort c) = Aborted \<and> phase (abort c) \<noteq> Sleeping \<and>
             (\<forall>t args. attempt_report t (abort c) args = ((abort c)\<lparr>phase := Settled\<rparr>, [])) \<and>
             (\<forall>t cl. conn_step t cl (abort c) TimerFired = (abort c, [])))) \<and>
   (\<not> adminClient s \<and> \<not> adminConnecting s \<longrightarrow>
      close s = (s\<lparr>closed := True\<rparr>, [CloseCallback None])) \<and>
   (\<not> adminClient s \<longrightarrow> close (fst (close s)) = close s) \<and>
   (adminClient s \<longrightarrow>
      close s = (s\<lparr>closed := True, pending_unbinds := Suc (pending_unbinds s)\<rparr>,
                 [RemoveProxyListeners, Unbind]) \<and>
      unbind_done (fst (close s)) None =
        (s\<lparr>closed := True\<rparr>, [CloseCallback None, Emit ''close'' None]) \<and>
      unbind_done (fst (close s)) (Some err) = (s\<lparr>closed := True\<rparr>, [CloseCallback (Some err)]))"
proof -
  have c1: "\<not> adminClient s \<and> adminConnecting s \<longrightarrow>
      close s = (s\<lparr>closed := True, admin_retry := map_option abort (admin_retry s)\<rparr>,
                 [RetryAbort, CloseCallback None]) \<and>
      (\<forall>c. admin_retry s = Some c \<and> call_state c \<noteq> Completed \<longrightarrow>
             admin_retry (fst (close s)) = Some (abort c) \<and>
             call_state (abort c) = Aborted \<and> phase (abort c) \<noteq> Sleeping \<and>
             (\<forall>t args. attempt_report t (abort c) args = ((abort c)\<lparr>phase := Settled\<rparr>, [])) \<and>
             (\<forall>t cl. conn_step t cl (abort c) TimerFired = (abort c, [])))"
    by (auto simp: close_def Let_def abort_def attempt_report_def)
  have c2: "\<not> adminClient s \<and> \<not> adminConnecting s \<longrightarrow>
      close s = (s\<lparr>closed := True\<rparr>, [CloseCallback None])"
    by (simp add: close_def Let_def)
  have c3: "\<not> adminClient s \<longrightarrow> close (fst (close s)) = close s"
    by (cases "admin_retry s") (auto simp: close_def Let_def abort_idem)
  have c4: "adminClient s \<longrightarrow>
      close s = (s\<lparr>closed := True, pending_unbinds := Suc (pending_unbinds s)\<rparr>,
                 [RemoveProxyListeners, Unbind]) \<and>
      unbind_done (fst (close s)) None =
        (s\<lparr>closed := True\<rparr>, [CloseCallback None, Emit ''close'' None]) \<and>
      unbind_done (fst (close s)) (Some err) = (s\<lparr>closed := True\<rparr>, [CloseCallback (Some err)])"
    by (cases s) (auto simp: close_def unbind_done_def Let_def)
  show ?thesis
    by (intro conjI c1 c2 c3 c4)
qed

theorem close_behaviour_witness:
  "\<not> adminClient example_started \<and> adminConnecting example_started \<and>
   close example_started =
     (example_started\<lparr>closed := True,
        admin_retry := Some \<lparr>cred_dn = JString ''cn=admin'', cred_passwd = JString ''adminpw'',
          call_state = Aborted, phase = Connecting, backoffNumber = 0, maxRetries = None,
          cb_called = False\<rparr>\<rparr>,
      [RetryAbort, CloseCallback None]) \<and>
   close (fst (close example_started)) = close example_started \<and>
   adminClient example_connected \<and>
   close example_connected =
     (example_connected\<lparr>closed := True, pending_unbinds := 1\<rparr>, [RemoveProxyListeners, Unbind]) \<and>
   unbind_done (fst (close example_connected)) None =
     (example_connected\<lparr>closed := True\<rparr>, [CloseCallback None, Emit ''close'' None])"
proof -
  have 1: "\<not> adminClient example_started" and 2: "adminConnecting example_started"
    by (simp_all add: example_started_eq)
  have 3: "adminClient example_connected" and p: "pending_unbinds example_connected = 0"
    by (simp_all add: example_connected_eq)
  note ts = close_behaviour [of example_started]
  from ts 1 2 have "close example_started =
      (example_started\<lparr>closed := True,
         admin_retry := map_option abort (admin_retry example_started)\<rparr>,
       [RetryAbort, CloseCallback None])"
    by blast
  moreover have "map_option abort (admin_retry example_started) =
      Some \<lparr>cred_dn = JString ''cn=admin'', cred_passwd = JString ''adminpw'',
          call_state = Aborted, phase = Connecting, backoffNumber = 0, maxRetries = None,
          cb_called = False\<rparr>"
    by (simp add: example_started_eq abort_def)
  ultimately have 4: "close example_started =
     (example_started\<lparr>closed := True,
        admin_retry := Some \<lparr>cred_dn = JString ''cn=admin'', cred_passwd = JString ''adminpw'',
          call_state = Aborted, phase = Connecting, backoffNumber = 0, maxRetries = None,
          cb_called = False\<rparr>\<rparr>,
      [RetryAbort, CloseCallback None])"
    by (simp only:)
  from ts 1 have 5: "close (fst (close example_started)) = close example_started"
    by blast
  note tc = close_behaviour [of example_connected]
  from tc 3 have "close example_connected =
      (example_connected\<lparr>closed := True,
         pending_unbinds := Suc (pending_unbinds example_connected)\<rparr>,
       [RemoveProxyListeners, Unbind])"
    by blast
  with p have 6: "close example_connected =
     (example_connected\<lparr>closed := True, pending_unbinds := 1\<rparr>, [RemoveProxyListeners, Unbind])"
    by simp
  from tc 3 have 7: "unbind_done (fst (close example_connected)) None =
     (example_connected\<lparr>closed := True\<rparr>, [CloseCallback None, Emit ''close'' None])"
    by blast
  from 1 2 4 5 3 6 7 show ?thesis
    by (intro conjI)
qed

text \<open>
  C6 as stated fails. A service that never connected emits no \<^verbatim>\<open>close\<close> event, however
  often \<^verbatim>\<open>close\<close> is called. And on a connected service a second call of \<^verbatim>\<open>close\<close>, made
  after the first has completed, is not without effect: it removes the listeners and sends
  an unbind again, and it has not invoked its callback.
\<close>

theorem close_notifications:
  "snd (run example_started [Close, Admin OnConnect, Close]) =
     [RetryAbort, CloseCallback None, SocketEnd, RetryAbort, CloseCallback None] \<and>
   run example_connected [Close, UnbindDone None, Close] =
     (example_connected\<lparr>closed := True, pending_unbinds := 1\<rparr>,
      [RemoveProxyListeners, Unbind, CloseCallback None, Emit ''close'' None,
       RemoveProxyListeners, Unbind])"
  by (simp add: example_started_eq example_connected_eq close_def abort_def attempt_report_def
      unbind_done_def)

section \<open>The password check of \<^verbatim>\<open>authenticate\<close>\<close>

lemma attempts_append [simp]: "attempts (xs @ ys) = attempts xs + attempts ys"
  by (simp add: attempts_def)

lemma backoffs_append [simp]: "backoffs (xs @ ys) = backoffs xs + backoffs ys"
  by (simp add: backoffs_def)

lemma callbacks_append [simp]: "callbacks (xs @ ys) = callbacks xs + callbacks ys"
  by (simp add: callbacks_def)












lemma verif_ok_new:
  "verif_ok \<lparr>v_user = u, v_conn = fst (createClient d p r), v_stage = VBinding\<rparr>"
  by (simp add: verif_ok_def conn_fresh_def createClient_def)




















end
